theory Spec2Isabelle
  imports Main "HOL-Library.Word"
begin

section \<open>The C++ fragment used by the project\<close>

text \<open>
  The project is a set of C++ files that are broken on purpose: two variants of the header
  of class \<open>User\<close>, the member definitions in \<open>src/User.cpp\<close> and \<open>main\<close> in
  \<open>src/main.cpp\<close>. The properties of interest speak about what is declared, what is
  defined and in which order statements run, so the files are transcribed as data: types,
  member declarations, expressions and statements, each statement with the line it starts on.
\<close>

datatype cpp_type =
    T_void
  | T_int
  | T_float
  | T_string
  | T_auto
  | T_class string
  | T_const_ref cpp_type
  | T_pointer cpp_type
  | T_vector cpp_type

type_synonym param = "cpp_type \<times> string"

text \<open>
  A member as a class body or the head of an out-of-class definition writes it. For a
  method: \<open>static\<close> flag, return type, name, parameters, \<open>const\<close> qualifier.
\<close>

datatype member_decl =
    D_field cpp_type string
  | D_ctor "param list"
  | D_dtor
  | D_method bool cpp_type string "param list" bool

record class_decl =
  class_name :: string
  private_members :: "member_decl list"
  public_members :: "member_decl list"

datatype expr =
    Var string
  | This_member string
  | Member expr string
  | Int_lit int
  | Str_lit string
  | Bool_lit bool
  | Call string "expr list"
  | Construct string "expr list"
  | Method_call expr string "expr list"
  | Arrow_call expr string "expr list"
  | Make_unique string "expr list"
  | Less expr expr
  | Plus expr expr
  | Shift_left expr expr
  | Negation expr

datatype initializer = Default_init | Copy_init expr | Direct_init "expr list"

datatype stmt =
    S_assign nat expr expr
  | S_delete nat expr
  | S_return nat expr
  | S_expr nat expr
  | S_decl nat cpp_type string initializer
  | S_if nat expr "stmt list"
  | S_range_for nat cpp_type string expr "stmt list"

text \<open>
  An out-of-class member definition: the line of its head, the class it is qualified with,
  the head itself, the member initialisers of a constructor, and the body.
\<close>

record fun_def =
  def_line :: nat
  def_class :: string
  def_head :: member_decl
  def_inits :: "(string \<times> expr) list"
  def_body :: "stmt list"

section \<open>The two headers\<close>

text \<open>\<open>include/User.h\<close>, lines 4 to 34.\<close>

definition include_User_h :: class_decl where
  "include_User_h = \<lparr>
     class_name = ''User'',
     private_members =
       [D_field T_string ''firstName'',
        D_field T_string ''lastName'',
        D_field T_int ''age'',
        D_field T_string ''email''],
     public_members =
       [D_ctor [(T_const_ref T_string, ''first''), (T_const_ref T_string, ''last''),
                (T_int, ''userAge''), (T_const_ref T_string, ''userEmail'')],
        D_ctor [(T_const_ref (T_class ''User''), ''other'')],
        D_dtor,
        D_method False T_string ''getName'' [] True,
        D_method False T_string ''getEmail'' [] True,
        D_method False T_int ''getAge'' [] True,
        D_method False T_void ''setAge'' [(T_float, ''newAge'')] False,
        D_method False T_string ''getFullName'' [] False,
        D_method True (T_class ''User'') ''createDefaultUser'' [] False] \<rparr>"

text \<open>\<open>src/User.h\<close>, lines 6 to 20.\<close>

definition src_User_h :: class_decl where
  "src_User_h = \<lparr>
     class_name = ''User'',
     private_members =
       [D_field T_string ''firstName'',
        D_field T_string ''lastName'',
        D_field T_int ''age'',
        D_field T_string ''email''],
     public_members =
       [D_ctor [(T_const_ref T_string, ''first''), (T_const_ref T_string, ''last''),
                (T_int, ''userAge''), (T_const_ref T_string, ''userEmail'')],
        D_method False T_string ''getName'' [] True] \<rparr>"

definition User_headers :: "class_decl list" where
  "User_headers = [include_User_h, src_User_h]"

section \<open>The member definitions of \<open>src/User.cpp\<close>\<close>

definition User_ctor4_cpp :: fun_def where
  "User_ctor4_cpp = \<lparr>
     def_line = 4,
     def_class = ''User'',
     def_head = D_ctor [(T_const_ref T_string, ''first''), (T_const_ref T_string, ''last''),
                        (T_int, ''userAge''), (T_const_ref T_string, ''userEmail'')],
     def_inits = [(''firstName'', Var ''first''), (''lastName'', Var ''last''),
                  (''age'', Var ''userAge''), (''email'', Var ''userEmail'')],
     def_body = [S_assign 7 (This_member ''id'') (Call ''generateId'' [])] \<rparr>"

definition User_copy_cpp :: fun_def where
  "User_copy_cpp = \<lparr>
     def_line = 10,
     def_class = ''User'',
     def_head = D_ctor [(T_const_ref (T_class ''User''), ''other'')],
     def_inits = [(''firstName'', Member (Var ''other'') ''firstName''),
                  (''lastName'', Member (Var ''other'') ''lastName''),
                  (''age'', Member (Var ''other'') ''age'')],
     def_body = [] \<rparr>"

definition User_dtor_cpp :: fun_def where
  "User_dtor_cpp = \<lparr>
     def_line = 16,
     def_class = ''User'',
     def_head = D_dtor,
     def_inits = [],
     def_body = [S_delete 18 (Var ''firstName'')] \<rparr>"

definition getName_cpp :: fun_def where
  "getName_cpp = \<lparr>
     def_line = 21,
     def_class = ''User'',
     def_head = D_method False T_string ''getName'' [] True,
     def_inits = [],
     def_body = [S_return 22 (Var ''firstName'')] \<rparr>"

definition getEmail_cpp :: fun_def where
  "getEmail_cpp = \<lparr>
     def_line = 25,
     def_class = ''User'',
     def_head = D_method False T_string ''getEmail'' [] True,
     def_inits = [],
     def_body = [S_return 26 (Var ''email'')] \<rparr>"

definition getAge_cpp :: fun_def where
  "getAge_cpp = \<lparr>
     def_line = 29,
     def_class = ''User'',
     def_head = D_method False T_int ''getAge'' [] True,
     def_inits = [],
     def_body = [S_return 30 (Var ''age'')] \<rparr>"

definition setAge_cpp :: fun_def where
  "setAge_cpp = \<lparr>
     def_line = 34,
     def_class = ''User'',
     def_head = D_method False T_void ''setAge'' [(T_int, ''newAge'')] False,
     def_inits = [],
     def_body =
       [S_if 35 (Less (Var ''newAge'') (Int_lit 0))
          [S_assign 37 (This_member ''isValid'') (Bool_lit False)],
        S_assign 39 (Var ''age'') (Var ''newAge'')] \<rparr>"

definition getFullName_cpp :: fun_def where
  "getFullName_cpp = \<lparr>
     def_line = 43,
     def_class = ''User'',
     def_head = D_method False T_string ''getFullName'' [] True,
     def_inits = [],
     def_body =
       [S_return 44 (Plus (Plus (Var ''firstName'') (Str_lit '' '')) (Var ''lastName''))] \<rparr>"

definition createDefaultUser_cpp :: fun_def where
  "createDefaultUser_cpp = \<lparr>
     def_line = 48,
     def_class = ''User'',
     def_head = D_method False T_int ''createDefaultUser'' [] False,
     def_inits = [],
     def_body =
       [S_return 49 (Construct ''User'' [Str_lit ''Default'', Str_lit ''User'', Int_lit 0,
                                         Str_lit ''default@example.com''])] \<rparr>"

definition User_cpp :: "fun_def list" where
  "User_cpp = [User_ctor4_cpp, User_copy_cpp, User_dtor_cpp, getName_cpp, getEmail_cpp,
               getAge_cpp, setAge_cpp, getFullName_cpp, createDefaultUser_cpp]"

section \<open>\<open>main\<close> of \<open>src/main.cpp\<close>\<close>

definition main_cpp :: "stmt list" where
  "main_cpp =
     [S_expr 10 (Shift_left (Shift_left (Shift_left (Var ''std::cout'')
          (Str_lit ''Starting application: '')) (Var ''undefinedVersion'')) (Var ''std::endl'')),
      S_decl 13 T_string ''port'' (Copy_init (Int_lit 8080)),
      S_decl 15 (T_class ''Database'') ''db'' Default_init,
      S_if 18 (Negation (Method_call (Var ''db'') ''initialize'' []))
        [S_expr 19 (Shift_left (Shift_left (Var ''std::cerr'')
            (Str_lit ''Failed to initialize database'')) (Var ''std::endl'')),
         S_return 20 (Int_lit 1)],
      S_decl 23 (T_vector (T_class ''User'')) ''users'' Default_init,
      S_decl 26 (T_class ''User'') ''user1''
        (Direct_init [Str_lit ''John'', Str_lit ''Doe'', Int_lit 25, Str_lit ''invalid@email'']),
      S_decl 27 (T_class ''User'') ''user2'' (Direct_init [Str_lit ''Jane'', Str_lit ''Smith'']),
      S_expr 29 (Method_call (Var ''users'') ''push_back'' [Var ''user1'']),
      S_expr 30 (Method_call (Var ''users'') ''push_back'' [Var ''user2'']),
      S_range_for 33 (T_const_ref T_auto) ''user'' (Var ''users'')
        [S_expr 34 (Shift_left (Shift_left (Shift_left (Shift_left (Shift_left (Var ''std::cout'')
            (Str_lit ''User: '')) (Method_call (Var ''user'') ''getFullName'' []))
            (Str_lit '', Age: '')) (Member (Var ''user'') ''birthYear'')) (Var ''std::endl''))],
      S_decl 39 T_auto ''userPtr''
        (Copy_init (Make_unique ''User''
           [Str_lit ''Test'', Str_lit ''User'', Int_lit 30, Str_lit ''test@example.com''])),
      S_delete 40 (Method_call (Var ''userPtr'') ''get'' []),
      S_expr 41 (Shift_left (Shift_left (Var ''std::cout'')
          (Arrow_call (Var ''userPtr'') ''getName'' [])) (Var ''std::endl'')),
      S_return 43 (Int_lit 0)]"

section \<open>Lookups in a class declaration\<close>

definition members :: "class_decl \<Rightarrow> member_decl list" where
  "members c = private_members c @ public_members c"

fun field_of :: "member_decl \<Rightarrow> (string \<times> cpp_type) option" where
  "field_of (D_field t n) = Some (n, t)"
| "field_of (D_ctor ps) = None"
| "field_of D_dtor = None"
| "field_of (D_method st rt n ps cq) = None"

definition fields :: "class_decl \<Rightarrow> (string \<times> cpp_type) list" where
  "fields c = List.map_filter field_of (members c)"

definition field_type :: "class_decl \<Rightarrow> string \<Rightarrow> cpp_type option" where
  "field_type c n = map_of (fields c) n"

fun method_name :: "member_decl \<Rightarrow> string option" where
  "method_name (D_method st rt n ps cq) = Some n"
| "method_name (D_field t n) = None"
| "method_name (D_ctor ps) = None"
| "method_name D_dtor = None"

definition method_names :: "class_decl \<Rightarrow> string list" where
  "method_names c = List.map_filter method_name (members c)"

definition find_method :: "class_decl \<Rightarrow> string \<Rightarrow> member_decl option" where
  "find_method c n = find (\<lambda>m. method_name m = Some n) (members c)"

fun ctor_params :: "member_decl \<Rightarrow> param list option" where
  "ctor_params (D_ctor ps) = Some ps"
| "ctor_params (D_field t n) = None"
| "ctor_params D_dtor = None"
| "ctor_params (D_method st rt n ps cq) = None"

definition constructors :: "class_decl \<Rightarrow> param list list" where
  "constructors c = List.map_filter ctor_params (members c)"

text \<open>A copy constructor of class \<open>cn\<close> takes one parameter, of type \<open>const cn&\<close>.\<close>

definition is_copy_params :: "string \<Rightarrow> param list \<Rightarrow> bool" where
  "is_copy_params cn ps = (map fst ps = [T_const_ref (T_class cn)])"

definition copy_ctors :: "class_decl \<Rightarrow> param list list" where
  "copy_ctors c = filter (is_copy_params (class_name c)) (constructors c)"

definition non_copy_ctors :: "class_decl \<Rightarrow> param list list" where
  "non_copy_ctors c = filter (\<lambda>ps. \<not> is_copy_params (class_name c) ps) (constructors c)"

definition declares_dtor :: "class_decl \<Rightarrow> bool" where
  "declares_dtor c = (D_dtor \<in> set (members c))"

text \<open>The names a class declares, data members first.\<close>

definition declared_names :: "class_decl \<Rightarrow> string list" where
  "declared_names c = map fst (fields c) @ method_names c"

text \<open>The members that the first class declares and the second does not.\<close>

definition only_in :: "class_decl \<Rightarrow> class_decl \<Rightarrow> member_decl list" where
  "only_in a b = filter (\<lambda>m. m \<notin> set (members b)) (members a)"

section \<open>Heads of declarations and definitions\<close>

fun head_params :: "member_decl \<Rightarrow> param list" where
  "head_params (D_ctor ps) = ps"
| "head_params (D_method st rt n ps cq) = ps"
| "head_params (D_field t n) = []"
| "head_params D_dtor = []"

definition param_types :: "member_decl \<Rightarrow> cpp_type list" where
  "param_types d = map fst (head_params d)"

fun return_type :: "member_decl \<Rightarrow> cpp_type option" where
  "return_type (D_method st rt n ps cq) = Some rt"
| "return_type (D_field t n) = None"
| "return_type (D_ctor ps) = None"
| "return_type D_dtor = None"

fun const_qualified :: "member_decl \<Rightarrow> bool" where
  "const_qualified (D_method st rt n ps cq) = cq"
| "const_qualified (D_field t n) = False"
| "const_qualified (D_ctor ps) = False"
| "const_qualified D_dtor = False"

text \<open>
  The head of an out-of-class definition redeclares a member of the class when both are
  constructors with the same parameter types, both are the destructor, or both are methods
  with the same name, parameter types, \<open>const\<close> qualifier and return type. Parameter
  names do not count, and \<open>static\<close> is written in the class body only.
\<close>

datatype member_kind = K_field | K_ctor | K_dtor | K_method

fun kind_of :: "member_decl \<Rightarrow> member_kind" where
  "kind_of (D_field t n) = K_field"
| "kind_of (D_ctor ps) = K_ctor"
| "kind_of D_dtor = K_dtor"
| "kind_of (D_method st rt n ps cq) = K_method"

definition same_signature :: "member_decl \<Rightarrow> member_decl \<Rightarrow> bool" where
  "same_signature d d' =
     (kind_of d = kind_of d' \<and> kind_of d \<noteq> K_field \<and> method_name d = method_name d' \<and>
      param_types d = param_types d' \<and> const_qualified d = const_qualified d')"

definition redeclares :: "member_decl \<Rightarrow> member_decl \<Rightarrow> bool" where
  "redeclares d d' = (same_signature d d' \<and> return_type d = return_type d')"

section \<open>What a member definition accesses\<close>

text \<open>The members an expression names through \<open>this->\<close>.\<close>

fun this_members :: "expr \<Rightarrow> string list" where
  "this_members (Var x) = []"
| "this_members (This_member m) = [m]"
| "this_members (Member e m) = this_members e"
| "this_members (Int_lit n) = []"
| "this_members (Str_lit s) = []"
| "this_members (Bool_lit b) = []"
| "this_members (Call f es) = concat (map this_members es)"
| "this_members (Construct c es) = concat (map this_members es)"
| "this_members (Method_call e m es) = this_members e @ concat (map this_members es)"
| "this_members (Arrow_call e m es) = this_members e @ concat (map this_members es)"
| "this_members (Make_unique c es) = concat (map this_members es)"
| "this_members (Less a b) = this_members a @ this_members b"
| "this_members (Plus a b) = this_members a @ this_members b"
| "this_members (Shift_left a b) = this_members a @ this_members b"
| "this_members (Negation e) = this_members e"

fun init_exprs :: "initializer \<Rightarrow> expr list" where
  "init_exprs Default_init = []"
| "init_exprs (Copy_init e) = [e]"
| "init_exprs (Direct_init es) = es"

text \<open>The same for a statement, each access with the line of the statement it stands in.\<close>

fun this_accesses :: "stmt \<Rightarrow> (nat \<times> string) list" where
  "this_accesses (S_assign l a b) = map (Pair l) (this_members a @ this_members b)"
| "this_accesses (S_delete l e) = map (Pair l) (this_members e)"
| "this_accesses (S_return l e) = map (Pair l) (this_members e)"
| "this_accesses (S_expr l e) = map (Pair l) (this_members e)"
| "this_accesses (S_decl l t x i) = map (Pair l) (concat (map this_members (init_exprs i)))"
| "this_accesses (S_if l c ss) =
     map (Pair l) (this_members c) @ concat (map this_accesses ss)"
| "this_accesses (S_range_for l t x e ss) =
     map (Pair l) (this_members e) @ concat (map this_accesses ss)"

text \<open>
  An access \<open>this->m\<close> is well-formed only when the class declares a data member \<open>m\<close>
  (the classes here have no base class, and the accesses in question are assigned to).
\<close>

definition undeclared_members :: "class_decl \<Rightarrow> fun_def \<Rightarrow> (nat \<times> string) list" where
  "undeclared_members c d =
     filter (\<lambda>(l, m). field_type c m = None) (concat (map this_accesses (def_body d)))"

text \<open>The operands of the \<open>delete\<close> statements, with their lines.\<close>

fun deletes :: "stmt \<Rightarrow> (nat \<times> expr) list" where
  "deletes (S_delete l e) = [(l, e)]"
| "deletes (S_if l c ss) = concat (map deletes ss)"
| "deletes (S_range_for l t x e ss) = concat (map deletes ss)"
| "deletes (S_assign l a b) = []"
| "deletes (S_return l e) = []"
| "deletes (S_expr l e) = []"
| "deletes (S_decl l t x i) = []"

text \<open>The expressions the \<open>return\<close> statements return.\<close>

fun returns :: "stmt \<Rightarrow> expr list" where
  "returns (S_return l e) = [e]"
| "returns (S_if l c ss) = concat (map returns ss)"
| "returns (S_range_for l t x e ss) = concat (map returns ss)"
| "returns (S_assign l a b) = []"
| "returns (S_delete l e) = []"
| "returns (S_expr l e) = []"
| "returns (S_decl l t x i) = []"

fun is_pointer :: "cpp_type \<Rightarrow> bool" where
  "is_pointer (T_pointer t) = True"
| "is_pointer T_void = False"
| "is_pointer T_int = False"
| "is_pointer T_float = False"
| "is_pointer T_string = False"
| "is_pointer T_auto = False"
| "is_pointer (T_class c) = False"
| "is_pointer (T_const_ref t) = False"
| "is_pointer (T_vector t) = False"

text \<open>
  A plain name in a member function that is no parameter names a data member. The operand
  of \<open>delete\<close> must be a pointer: the deletes of a data member of another type are listed
  with the member's declared type.
\<close>

definition deleted_member ::
  "class_decl \<Rightarrow> fun_def \<Rightarrow> nat \<times> expr \<Rightarrow> (nat \<times> string \<times> cpp_type) option" where
  "deleted_member c d le =
     (case le of
        (l, Var x) \<Rightarrow>
          (if x \<in> set (map snd (head_params (def_head d))) then None
           else map_option (\<lambda>t. (l, x, t)) (field_type c x))
      | _ \<Rightarrow> None)"

definition non_pointer_deletes :: "class_decl \<Rightarrow> fun_def \<Rightarrow> (nat \<times> string \<times> cpp_type) list" where
  "non_pointer_deletes c d =
     filter (\<lambda>(l, x, t). \<not> is_pointer t)
       (List.map_filter (deleted_member c d) (concat (map deletes (def_body d))))"

section \<open>A checker for the rules the files break\<close>

text \<open>
  A compiler rejects a translation unit on any of these grounds (and on others, which are
  not modelled): a member definition that redeclares no member of the class, an access
  through \<open>this->\<close> to a member the class does not declare, a \<open>delete\<close> of a data
  member that is no pointer, and the construction of an object with a number of arguments
  that no constructor of the class takes (no constructor here has default arguments).
\<close>

datatype diagnostic =
    No_matching_declaration nat
  | No_member nat string
  | Delete_of_non_pointer nat string
  | No_matching_constructor nat nat

definition check_def :: "class_decl \<Rightarrow> fun_def \<Rightarrow> diagnostic list" where
  "check_def c d =
     (if list_ex (redeclares (def_head d)) (members c) then []
      else [No_matching_declaration (def_line d)])
     @ map (\<lambda>(l, m). No_member l m) (undeclared_members c d)
     @ map (\<lambda>(l, x, t). Delete_of_non_pointer l x) (non_pointer_deletes c d)"

definition check_defs :: "class_decl \<Rightarrow> fun_def list \<Rightarrow> diagnostic list" where
  "check_defs c ds = concat (map (check_def c) ds)"

text \<open>
  The objects of class \<open>cn\<close> a statement constructs from an argument list: line, variable
  and number of arguments.
\<close>

fun constructions :: "string \<Rightarrow> stmt \<Rightarrow> (nat \<times> string \<times> nat) list" where
  "constructions cn (S_decl l t x i) =
     (case i of
        Direct_init es \<Rightarrow> (if t = T_class cn then [(l, x, length es)] else [])
      | Copy_init e \<Rightarrow>
          (case e of Make_unique c es \<Rightarrow> (if c = cn then [(l, x, length es)] else [])
           | _ \<Rightarrow> [])
      | Default_init \<Rightarrow> [])"
| "constructions cn (S_if l c ss) = concat (map (constructions cn) ss)"
| "constructions cn (S_range_for l t x e ss) = concat (map (constructions cn) ss)"
| "constructions cn (S_assign l a b) = []"
| "constructions cn (S_delete l e) = []"
| "constructions cn (S_return l e) = []"
| "constructions cn (S_expr l e) = []"

text \<open>
  The numbers of arguments an object of the class can be constructed from: those of the
  declared constructors, one for the copy constructor (declared by the class or by the
  compiler), and none when the class declares no constructor at all.
\<close>

definition ctor_arities :: "class_decl \<Rightarrow> nat list" where
  "ctor_arities c =
     map length (constructors c) @ [1] @ (if constructors c = [] then [0] else [])"

definition arity_mismatches :: "class_decl \<Rightarrow> stmt list \<Rightarrow> (nat \<times> string \<times> nat) list" where
  "arity_mismatches c ss =
     filter (\<lambda>(l, x, n). n \<notin> set (ctor_arities c))
       (concat (map (constructions (class_name c)) ss))"

definition check_body :: "class_decl \<Rightarrow> stmt list \<Rightarrow> diagnostic list" where
  "check_body c ss = map (\<lambda>(l, x, n). No_matching_constructor l n) (arity_mismatches c ss)"

definition compiles :: "class_decl \<Rightarrow> fun_def list \<Rightarrow> bool" where
  "compiles c ds = (check_defs c ds = [])"

section \<open>The order in which \<open>main\<close> handles its pointer\<close>

text \<open>
  What an execution does to the objects behind named pointers: a \<open>std::make_unique\<close>
  that initialises variable \<open>p\<close>, a \<open>delete\<close> of \<open>p\<close> or of the raw pointer
  \<open>p.get()\<close>, a member call \<open>p->m(...)\<close>, and the \<open>return\<close> that ends it.
\<close>

datatype event =
    Allocated string
  | Deleted string
  | Used string
  | Returned expr

text \<open>The pointers an expression dereferences with \<open>->\<close>, operands first.\<close>

fun uses :: "expr \<Rightarrow> string list" where
  "uses (Var x) = []"
| "uses (This_member m) = []"
| "uses (Member e m) = uses e"
| "uses (Int_lit n) = []"
| "uses (Str_lit s) = []"
| "uses (Bool_lit b) = []"
| "uses (Call f es) = concat (map uses es)"
| "uses (Construct c es) = concat (map uses es)"
| "uses (Method_call e m es) = uses e @ concat (map uses es)"
| "uses (Arrow_call e m es) =
     uses e @ concat (map uses es) @ (case e of Var p \<Rightarrow> [p] | _ \<Rightarrow> [])"
| "uses (Make_unique c es) = concat (map uses es)"
| "uses (Less a b) = uses a @ uses b"
| "uses (Plus a b) = uses a @ uses b"
| "uses (Shift_left a b) = uses a @ uses b"
| "uses (Negation e) = uses e"

text \<open>The variable whose object \<open>delete e\<close> destroys: \<open>e\<close> is \<open>p\<close> or \<open>p.get()\<close>.\<close>

definition delete_target :: "expr \<Rightarrow> string option" where
  "delete_target e =
     (case e of
        Var p \<Rightarrow> Some p
      | Method_call r m es \<Rightarrow>
          (case r of Var p \<Rightarrow> (if m = ''get'' \<and> es = [] then Some p else None) | _ \<Rightarrow> None)
      | _ \<Rightarrow> None)"

definition init_events :: "string \<Rightarrow> initializer \<Rightarrow> event list" where
  "init_events x i =
     map Used (concat (map uses (init_exprs i)))
     @ (case i of Copy_init e \<Rightarrow> (case e of Make_unique c es \<Rightarrow> [Allocated x] | _ \<Rightarrow> [])
        | _ \<Rightarrow> [])"

text \<open>
  The files do not decide every condition: \<open>main\<close> branches on \<open>db.initialize()\<close>, and
  \<open>Database.h\<close> is not part of the project. So an execution is run against \<open>ext\<close>, which
  tells the truth value of each such expression, and \<open>iters\<close>, which tells how often the loop
  that starts on a line runs. Negation is the only connective the conditions use.
\<close>

fun truth :: "(expr \<Rightarrow> bool) \<Rightarrow> expr \<Rightarrow> bool" where
  "truth ext (Negation e) = (\<not> truth ext e)"
| "truth ext (Bool_lit b) = b"
| "truth ext e = ext e"

text \<open>
  Running a statement gives its events and tells whether it returned; a statement list
  stops at the first statement that returns, and so does a loop.
\<close>

fun seq :: "event list \<times> bool \<Rightarrow> event list \<times> bool \<Rightarrow> event list \<times> bool" where
  "seq (es, True) r = (es, True)"
| "seq (es, False) (es', r) = (es @ es', r)"

fun repeat :: "nat \<Rightarrow> event list \<times> bool \<Rightarrow> event list \<times> bool" where
  "repeat 0 r = ([], False)"
| "repeat (Suc n) r = seq r (repeat n r)"

fun run :: "(expr \<Rightarrow> bool) \<Rightarrow> (nat \<Rightarrow> nat) \<Rightarrow> stmt \<Rightarrow> event list \<times> bool" where
  "run ext iters (S_assign l a b) = (map Used (uses a @ uses b), False)"
| "run ext iters (S_delete l e) =
     (map Used (uses e) @ (case delete_target e of Some p \<Rightarrow> [Deleted p] | None \<Rightarrow> []), False)"
| "run ext iters (S_return l e) = (map Used (uses e) @ [Returned e], True)"
| "run ext iters (S_expr l e) = (map Used (uses e), False)"
| "run ext iters (S_decl l t x i) = (init_events x i, False)"
| "run ext iters (S_if l c ss) =
     seq (map Used (uses c), False)
       (if truth ext c then foldr seq (map (run ext iters) ss) ([], False) else ([], False))"
| "run ext iters (S_range_for l t x e ss) =
     seq (map Used (uses e), False)
       (repeat (iters l) (foldr seq (map (run ext iters) ss) ([], False)))"

definition run_body :: "(expr \<Rightarrow> bool) \<Rightarrow> (nat \<Rightarrow> nat) \<Rightarrow> stmt list \<Rightarrow> event list" where
  "run_body ext iters ss = fst (foldr seq (map (run ext iters) ss) ([], False))"

text \<open>A use of \<open>p\<close> after a delete of \<open>p\<close>.\<close>

fun use_after_delete :: "string \<Rightarrow> event list \<Rightarrow> bool" where
  "use_after_delete p [] = False"
| "use_after_delete p (e # es) =
     ((e = Deleted p \<and> Used p \<in> set es) \<or> use_after_delete p es)"

definition db_initialize :: expr where
  "db_initialize = Method_call (Var ''db'') ''initialize'' []"

section \<open>The member functions as state transformers\<close>

text \<open>
  An object is a store from member names to values. \<open>User.cpp\<close> writes members that no
  header declares (\<open>id\<close>, \<open>isValid\<close>); in a store such a write is an update like any
  other, and the checker above is what reports it. A member that was never written has
  no value. \<open>int\<close> is taken as 32 bits wide, read as a signed number in comparisons.
\<close>

datatype val = Int_val "32 word" | Bool_val bool | Str_val string

type_synonym object = "string \<rightharpoonup> val"

text \<open>
  Before a constructor body runs, a member without a member initialiser is
  default-initialised: a \<open>std::string\<close> is empty, an \<open>int\<close> has no determined value.
\<close>

definition default_initialised :: object where
  "default_initialised =
     [''firstName'' \<mapsto> Str_val [], ''lastName'' \<mapsto> Str_val [], ''email'' \<mapsto> Str_val []]"

text \<open>\<open>User::User(const User& other)\<close>, \<open>User.cpp\<close> lines 10 to 14.\<close>

definition User_copy :: "object \<Rightarrow> object" where
  "User_copy other =
     default_initialised
       (''firstName'' := other ''firstName'',
        ''lastName'' := other ''lastName'',
        ''age'' := other ''age'')"

text \<open>The getters, lines 21 to 31.\<close>

definition getName :: "object \<Rightarrow> val option" where
  "getName this = this ''firstName''"

definition getEmail :: "object \<Rightarrow> val option" where
  "getEmail this = this ''email''"

definition getAge :: "object \<Rightarrow> val option" where
  "getAge this = this ''age''"

text \<open>\<open>void User::setAge(int newAge)\<close>, lines 34 to 40.\<close>

definition setAge :: "object \<Rightarrow> 32 word \<Rightarrow> object" where
  "setAge this newAge =
     (let this1 = (if sint newAge < 0 then this(''isValid'' \<mapsto> Bool_val False) else this)
      in this1(''age'' \<mapsto> Int_val newAge))"

text \<open>
  A sample object: the members that \<open>user1\<close> of \<open>main\<close> receives from the member
  initialisers of the four-parameter constructor.
\<close>

definition sample_user :: object where
  "sample_user =
     [''firstName'' \<mapsto> Str_val ''John'', ''lastName'' \<mapsto> Str_val ''Doe'',
      ''age'' \<mapsto> Int_val 25, ''email'' \<mapsto> Str_val ''invalid@email'']"

section \<open>Auxiliary facts\<close>

lemma repeat_no_events: "repeat n ([], False) = ([], False)"
  by (induction n) simp_all

text \<open>
  The events of \<open>main\<close>, for every answer of \<open>db.initialize()\<close> and every number of loop
  iterations: the loop body touches no pointer, so only the branch on line 18 matters.
\<close>

lemma main_events:
  "run_body ext iters main_cpp =
     (if ext db_initialize
      then [Allocated ''userPtr'', Deleted ''userPtr'', Used ''userPtr'', Returned (Int_lit 0)]
      else [Returned (Int_lit 1)])"
  by (simp add: run_body_def main_cpp_def db_initialize_def init_events_def delete_target_def
      repeat_no_events)

text \<open>Every diagnostic of a definition is one of the translation unit, which then fails.\<close>

lemma check_def_in_check_defs:
  "d \<in> set ds \<Longrightarrow> x \<in> set (check_def c d) \<Longrightarrow> x \<in> set (check_defs c ds)"
  by (auto simp add: check_defs_def)

lemma undeclared_member_reported:
  assumes "d \<in> set ds" and "(l, m) \<in> set (undeclared_members c d)"
  shows "No_member l m \<in> set (check_defs c ds)"
proof -
  from assms(2) have "No_member l m \<in> set (check_def c d)"
    by (force simp add: check_def_def)
  with assms(1) show ?thesis
    by (rule check_def_in_check_defs)
qed

lemma reported_not_compiles: "x \<in> set (check_defs c ds) \<Longrightarrow> \<not> compiles c ds"
  by (auto simp add: compiles_def)

text \<open>
  What \<open>use_after_delete\<close> computes: somewhere in the events a delete of \<open>p\<close> stands
  before a use of \<open>p\<close>.
\<close>

lemma use_after_delete_iff:
  "use_after_delete p es \<longleftrightarrow> (\<exists>as bs cs. es = as @ Deleted p # bs @ Used p # cs)"
proof (induction es)
  case Nil
  then show ?case by simp
next
  case (Cons e es)
  show ?case
  proof
    assume "use_after_delete p (e # es)"
    then consider "e = Deleted p" "Used p \<in> set es" | "use_after_delete p es"
      by auto
    then show "\<exists>as bs cs. e # es = as @ Deleted p # bs @ Used p # cs"
    proof cases
      case 1
      from 1(2) obtain bs cs where "es = bs @ Used p # cs"
        by (auto simp add: in_set_conv_decomp)
      with 1(1) have "e # es = [] @ Deleted p # bs @ Used p # cs" by simp
      then show ?thesis by blast
    next
      case 2
      with Cons.IH obtain as bs cs where "es = as @ Deleted p # bs @ Used p # cs"
        by blast
      then have "e # es = (e # as) @ Deleted p # bs @ Used p # cs" by simp
      then show ?thesis by blast
    qed
  next
    assume "\<exists>as bs cs. e # es = as @ Deleted p # bs @ Used p # cs"
    then obtain as bs cs where eq: "e # es = as @ Deleted p # bs @ Used p # cs"
      by blast
    show "use_after_delete p (e # es)"
    proof (cases as)
      case Nil
      with eq show ?thesis by auto
    next
      case (Cons a as')
      with eq have "es = as' @ Deleted p # bs @ Used p # cs" by simp
      with Cons.IH have "use_after_delete p es" by blast
      then show ?thesis by simp
    qed
  qed
qed

lemma setAge_other_members:
  "m \<noteq> ''age'' \<Longrightarrow> m \<noteq> ''isValid'' \<Longrightarrow> setAge u n m = u m"
  by (simp add: setAge_def Let_def)

lemma setAge_negative: "sint n < 0 \<Longrightarrow> setAge u n ''isValid'' = Some (Bool_val False)"
  by (simp add: setAge_def Let_def)

lemma setAge_not_negative: "\<not> sint n < 0 \<Longrightarrow> setAge u n ''isValid'' = u ''isValid''"
  by (simp add: setAge_def Let_def)

section \<open>The undeclared member \<open>id\<close>\<close>

text \<open>
  Claim C1 places the access to the undeclared member \<open>id\<close> on line 8 of \<open>User.cpp\<close>.
  Line 8 is the closing brace of the constructor: neither header gives an undeclared access
  on that line, and the checker reports none there.
\<close>

theorem C1_line_8_counterexample:
  "(8, ''id'') \<notin> set (undeclared_members src_User_h User_ctor4_cpp) \<and>
   (8, ''id'') \<notin> set (undeclared_members include_User_h User_ctor4_cpp) \<and>
   No_member 8 ''id'' \<notin> set (check_defs src_User_h User_cpp) \<and>
   No_member 8 ''id'' \<notin> set (check_defs include_User_h User_cpp)"
  by code_simp

text \<open>
  Claim C1, with the line as the file has it: the constructor defined on line 4 takes four
  parameters; neither header declares a member named \<open>id\<close>; the only access of that
  constructor to an undeclared member is \<open>this->id\<close> on line 7; the checker reports it,
  so \<open>User.cpp\<close> compiles against neither header.
\<close>

theorem C1_undeclared_id_on_line_7:
  "length (head_params (def_head User_ctor4_cpp)) = 4 \<and>
   map (\<lambda>h. ''id'' \<in> set (declared_names h)) User_headers = [False, False] \<and>
   map (\<lambda>h. undeclared_members h User_ctor4_cpp) User_headers =
     [[(7, ''id'')], [(7, ''id'')]] \<and>
   No_member 7 ''id'' \<in> set (check_defs src_User_h User_cpp) \<and>
   No_member 7 ''id'' \<in> set (check_defs include_User_h User_cpp) \<and>
   \<not> compiles src_User_h User_cpp \<and>
   \<not> compiles include_User_h User_cpp"
  proof -
  have ctor: "User_ctor4_cpp \<in> set User_cpp"
    by (simp add: User_cpp_def)
  have arity: "length (head_params (def_head User_ctor4_cpp)) = 4"
    by (simp add: User_ctor4_cpp_def)
  have names: "map (\<lambda>h. ''id'' \<in> set (declared_names h)) User_headers = [False, False]"
    by code_simp
  have accesses: "map (\<lambda>h. undeclared_members h User_ctor4_cpp) User_headers =
      [[(7, ''id'')], [(7, ''id'')]]"
    by code_simp
  then have "(7, ''id'') \<in> set (undeclared_members src_User_h User_ctor4_cpp)"
    and "(7, ''id'') \<in> set (undeclared_members include_User_h User_ctor4_cpp)"
    by (simp_all add: User_headers_def)
  with ctor have src: "No_member 7 ''id'' \<in> set (check_defs src_User_h User_cpp)"
    and inc: "No_member 7 ''id'' \<in> set (check_defs include_User_h User_cpp)"
    by (simp_all add: undeclared_member_reported)
  from src inc have "\<not> compiles src_User_h User_cpp" and "\<not> compiles include_User_h User_cpp"
    by (simp_all add: reported_not_compiles)
  with arity names accesses src inc show ?thesis
    by blast
qed

section \<open>Use after delete in \<open>main\<close>\<close>

text \<open>
  Claim C2: line 40 of \<open>main\<close> deletes the raw pointer \<open>userPtr.get()\<close>, that is
  the object \<open>userPtr\<close> owns, and \<open>userPtr->getName()\<close> dereferences \<open>userPtr\<close>.
  Whatever \<open>db.initialize()\<close> answers and however often the loop runs: once the delete
  has been executed, a use of \<open>userPtr\<close> comes after it. The delete is executed in every
  run that gets past the check of \<open>db.initialize()\<close>, where the events are the allocation,
  the delete, the use and the return of 0, in this order.
\<close>

theorem C2_use_after_delete:
  "S_delete 40 (Method_call (Var ''userPtr'') ''get'' []) \<in> set main_cpp \<and>
   delete_target (Method_call (Var ''userPtr'') ''get'' []) = Some ''userPtr'' \<and>
   uses (Arrow_call (Var ''userPtr'') ''getName'' []) = [''userPtr''] \<and>
   (Deleted ''userPtr'' \<in> set (run_body ext iters main_cpp) \<longrightarrow>
      use_after_delete ''userPtr'' (run_body ext iters main_cpp)) \<and>
   (ext db_initialize \<longrightarrow>
      run_body ext iters main_cpp =
        [Allocated ''userPtr'', Deleted ''userPtr'', Used ''userPtr'', Returned (Int_lit 0)])"
proof -
  have stmt: "S_delete 40 (Method_call (Var ''userPtr'') ''get'' []) \<in> set main_cpp"
    by (simp add: main_cpp_def)
  have target: "delete_target (Method_call (Var ''userPtr'') ''get'' []) = Some ''userPtr''"
    by (simp add: delete_target_def)
  have deref: "uses (Arrow_call (Var ''userPtr'') ''getName'' []) = [''userPtr'']"
    by simp
  have order: "Deleted ''userPtr'' \<in> set (run_body ext iters main_cpp) \<longrightarrow>
      use_after_delete ''userPtr'' (run_body ext iters main_cpp)"
    by (simp add: main_events)
  have past_check: "ext db_initialize \<longrightarrow>
      run_body ext iters main_cpp =
        [Allocated ''userPtr'', Deleted ''userPtr'', Used ''userPtr'', Returned (Int_lit 0)]"
    by (simp add: main_events)
  from stmt target deref order past_check show ?thesis
    by blast
qed

theorem C2_use_after_delete_witness:
  "Deleted ''userPtr'' \<in> set (run_body (\<lambda>e. True) (\<lambda>l. 2) main_cpp) \<and>
   use_after_delete ''userPtr'' (run_body (\<lambda>e. True) (\<lambda>l. 2) main_cpp) \<and>
   run_body (\<lambda>e. True) (\<lambda>l. 2) main_cpp =
     [Allocated ''userPtr'', Deleted ''userPtr'', Used ''userPtr'', Returned (Int_lit 0)]"
  using C2_use_after_delete [of "\<lambda>e. True" "\<lambda>l. 2"]
  by simp

section \<open>The destructor\<close>

text \<open>
  Claim C3: the destructor's body is one \<open>delete\<close>, of \<open>firstName\<close> on line 18; both
  headers declare \<open>firstName\<close> as a \<open>std::string\<close>, which is no pointer type; so against
  either header the destructor deletes a data member that is no pointer.
\<close>

theorem C3_destructor_deletes_non_pointer:
  "def_head User_dtor_cpp = D_dtor \<and>
   concat (map deletes (def_body User_dtor_cpp)) = [(18, Var ''firstName'')] \<and>
   map (\<lambda>h. field_type h ''firstName'') User_headers = [Some T_string, Some T_string] \<and>
   \<not> is_pointer T_string \<and>
   map (\<lambda>h. non_pointer_deletes h User_dtor_cpp) User_headers =
     [[(18, ''firstName'', T_string)], [(18, ''firstName'', T_string)]]"
  by code_simp

section \<open>Declarations against definitions\<close>

text \<open>
  Claim C4: \<open>include/User.h\<close> declares one method \<open>setAge\<close>, with a \<open>float\<close>
  parameter; the definition of \<open>setAge\<close> in \<open>User.cpp\<close> takes an \<open>int\<close>; the two
  signatures differ.
\<close>

theorem C4_setAge_parameter_mismatch:
  "filter (\<lambda>m. method_name m = Some ''setAge'') (members include_User_h) =
     [D_method False T_void ''setAge'' [(T_float, ''newAge'')] False] \<and>
   map_option param_types (find_method include_User_h ''setAge'') = Some [T_float] \<and>
   method_name (def_head setAge_cpp) = Some ''setAge'' \<and>
   param_types (def_head setAge_cpp) = [T_int] \<and>
   map_option (same_signature (def_head setAge_cpp)) (find_method include_User_h ''setAge'')
     = Some False"
  by code_simp

text \<open>
  Claim C5: \<open>include/User.h\<close> declares one method \<open>getFullName\<close>, not \<open>const\<close>; the
  definition in \<open>User.cpp\<close> is \<open>const\<close>; the two signatures differ.
\<close>

theorem C5_getFullName_const_mismatch:
  "filter (\<lambda>m. method_name m = Some ''getFullName'') (members include_User_h) =
     [D_method False T_string ''getFullName'' [] False] \<and>
   map_option const_qualified (find_method include_User_h ''getFullName'') = Some False \<and>
   method_name (def_head getFullName_cpp) = Some ''getFullName'' \<and>
   const_qualified (def_head getFullName_cpp) = True \<and>
   map_option (same_signature (def_head getFullName_cpp))
     (find_method include_User_h ''getFullName'') = Some False"
  by code_simp

text \<open>
  Claim C6: \<open>include/User.h\<close> declares \<open>createDefaultUser\<close> as a static method that
  returns a \<open>User\<close>; the definition in \<open>User.cpp\<close> has return type \<open>int\<close>; its body
  returns \<open>User("Default", "User", 0, "default@example.com")\<close>; the signatures agree and
  the return types do not, so the definition does not redeclare the declared method.
\<close>

theorem C6_createDefaultUser_return_mismatch:
  "find_method include_User_h ''createDefaultUser'' =
     Some (D_method True (T_class ''User'') ''createDefaultUser'' [] False) \<and>
   method_name (def_head createDefaultUser_cpp) = Some ''createDefaultUser'' \<and>
   return_type (def_head createDefaultUser_cpp) = Some T_int \<and>
   concat (map returns (def_body createDefaultUser_cpp)) =
     [Construct ''User'' [Str_lit ''Default'', Str_lit ''User'', Int_lit 0,
                          Str_lit ''default@example.com'']] \<and>
   map_option (same_signature (def_head createDefaultUser_cpp))
     (find_method include_User_h ''createDefaultUser'') = Some True \<and>
   map_option (redeclares (def_head createDefaultUser_cpp))
     (find_method include_User_h ''createDefaultUser'') = Some False"
  by code_simp

section \<open>Constructor arguments in \<open>main\<close>\<close>

text \<open>
  Claim C7: line 27 of \<open>main\<close> constructs \<open>user2\<close> from the two arguments \<open>"Jane"\<close>
  and \<open>"Smith"\<close>; in both headers the constructors other than the copy constructor are
  one constructor with four parameters; against either header, \<open>user2\<close> is the one
  construction in \<open>main\<close> whose number of arguments no constructor takes.
\<close>

theorem C7_user2_arity_mismatch:
  "S_decl 27 (T_class ''User'') ''user2'' (Direct_init [Str_lit ''Jane'', Str_lit ''Smith''])
     \<in> set main_cpp \<and>
   (27, ''user2'', 2) \<in> set (concat (map (constructions ''User'') main_cpp)) \<and>
   map (\<lambda>h. map length (non_copy_ctors h)) User_headers = [[4], [4]] \<and>
   map (\<lambda>h. arity_mismatches h main_cpp) User_headers =
     [[(27, ''user2'', 2)], [(27, ''user2'', 2)]]"
  by code_simp

section \<open>The two headers against each other\<close>

text \<open>
  Claim C8: the members that \<open>include/User.h\<close> declares and \<open>src/User.h\<close> does not are
  the copy constructor, the destructor, \<open>getEmail\<close>, \<open>getAge\<close>, \<open>setAge\<close>,
  \<open>getFullName\<close> and \<open>createDefaultUser\<close>; \<open>src/User.h\<close> declares no method of
  these names, no copy constructor and no destructor; the two declarations differ.
\<close>

theorem C8_headers_differ:
  "only_in include_User_h src_User_h =
     [D_ctor [(T_const_ref (T_class ''User''), ''other'')],
      D_dtor,
      D_method False T_string ''getEmail'' [] True,
      D_method False T_int ''getAge'' [] True,
      D_method False T_void ''setAge'' [(T_float, ''newAge'')] False,
      D_method False T_string ''getFullName'' [] False,
      D_method True (T_class ''User'') ''createDefaultUser'' [] False] \<and>
   filter (\<lambda>n. n \<in> set (method_names src_User_h))
     [''setAge'', ''getFullName'', ''getEmail'', ''getAge'', ''createDefaultUser''] = [] \<and>
   copy_ctors include_User_h = [[(T_const_ref (T_class ''User''), ''other'')]] \<and>
   copy_ctors src_User_h = [] \<and>
   declares_dtor include_User_h \<and>
   \<not> declares_dtor src_User_h \<and>
   include_User_h \<noteq> src_User_h"
  by code_simp

section \<open>The copy constructor\<close>

text \<open>
  Claim C9: the copy constructor has member initialisers for \<open>firstName\<close>, \<open>lastName\<close>
  and \<open>age\<close> and an empty body. For every object \<open>u\<close>, the email of the copy is the
  empty string, so it differs from the email of \<open>u\<close> whenever that one is a non-empty
  string, and the other three members of the copy are those of \<open>u\<close>.
\<close>

theorem C9_copy_constructor_drops_email:
  "map fst (def_inits User_copy_cpp) = [''firstName'', ''lastName'', ''age''] \<and>
   def_body User_copy_cpp = [] \<and>
   getEmail (User_copy u) = Some (Str_val []) \<and>
   (getEmail u = Some (Str_val s) \<and> s \<noteq> [] \<longrightarrow> getEmail (User_copy u) \<noteq> getEmail u) \<and>
   User_copy u ''firstName'' = u ''firstName'' \<and>
   User_copy u ''lastName'' = u ''lastName'' \<and>
   User_copy u ''age'' = u ''age''"
  by (auto simp add: User_copy_cpp_def User_copy_def getEmail_def default_initialised_def)

theorem C9_copy_constructor_drops_email_witness:
  "getEmail sample_user = Some (Str_val ''invalid@email'') \<and>
   getEmail (User_copy sample_user) = Some (Str_val []) \<and>
   getEmail (User_copy sample_user) \<noteq> getEmail sample_user \<and>
   getName (User_copy sample_user) = Some (Str_val ''John'') \<and>
   User_copy sample_user ''lastName'' = Some (Str_val ''Doe'') \<and>
   getAge (User_copy sample_user) = Some (Int_val 25)"
  using C9_copy_constructor_drops_email [of sample_user "''invalid@email''"]
  by (simp add: sample_user_def getEmail_def getName_def getAge_def)

section \<open>\<open>setAge\<close> and \<open>getAge\<close>\<close>

text \<open>
  Claim C10: for every object \<open>u\<close> and every \<open>int\<close> value \<open>n\<close>, negative or not,
  \<open>getAge\<close> after \<open>setAge(n)\<close> returns \<open>n\<close>.
\<close>

theorem C10_getAge_after_setAge:
  "getAge (setAge u n) = Some (Int_val n)"
  by (simp add: getAge_def setAge_def Let_def)

end
